theory Spec2Isabelle
  imports Main "HOL-Library.Word"
begin

section \<open>JavaScript values and strings\<close>

text \<open>
  A JavaScript string is a sequence of UTF-16 code units. Regular expressions without the
  \<^verbatim>\<open>u\<close> flag and \<^verbatim>\<open>String.prototype.trim\<close> both work on code units, and every
  white-space character of ECMAScript lies in the Basic Multilingual Plane, so a list of
  16-bit words is an exact model.
\<close>

type_synonym code_unit = "16 word"
type_synonym jsstring = "code_unit list"

definition js :: "string \<Rightarrow> jsstring" where
  "js s = map (\<lambda>c. of_nat (of_char c)) s"

text \<open>
  The values a route parameter can hold at run time. The TypeScript interface declares
  \<^verbatim>\<open>slug: string\<close>, but the handler tests the value dynamically, so the other kinds of
  value are kept. Numbers are integers here: every non-string value takes the same branch
  of the handler, so fractions and NaN add nothing.
\<close>

datatype jsval =
    JUndefined
  | JNull
  | JBool bool
  | JNum int
  | JStr jsstring
  | JObj

fun truthy :: "jsval \<Rightarrow> bool" where
  "truthy JUndefined = False"
| "truthy JNull = False"
| "truthy (JBool b) = b"
| "truthy (JNum n) = (n \<noteq> 0)"
| "truthy (JStr s) = (s \<noteq> [])"
| "truthy JObj = True"

fun typeof :: "jsval \<Rightarrow> string" where
  "typeof JUndefined = ''undefined''"
| "typeof JNull = ''object''"
| "typeof (JBool b) = ''boolean''"
| "typeof (JNum n) = ''number''"
| "typeof (JStr s) = ''string''"
| "typeof JObj = ''object''"

text \<open>
  \<^verbatim>\<open>String.prototype.trim\<close> removes leading and trailing WhiteSpace and LineTerminator
  code points: TAB, LF, VT, FF, CR, SP, NBSP, the Unicode space separators, LS, PS and
  the byte order mark.
\<close>

definition is_ws :: "code_unit \<Rightarrow> bool" where
  "is_ws c \<longleftrightarrow>
     c = 0x0009 \<or> c = 0x000A \<or> c = 0x000B \<or> c = 0x000C \<or> c = 0x000D \<or> c = 0x0020 \<or>
     c = 0x00A0 \<or> c = 0x1680 \<or> (0x2000 \<le> c \<and> c \<le> 0x200A) \<or> c = 0x2028 \<or>
     c = 0x2029 \<or> c = 0x202F \<or> c = 0x205F \<or> c = 0x3000 \<or> c = 0xFEFF"

definition trim :: "jsstring \<Rightarrow> jsstring" where
  "trim s = rev (dropWhile is_ws (rev (dropWhile is_ws s)))"

section \<open>Regular expressions\<close>

text \<open>
  The handler tests the slug against \<^verbatim>\<open>/^[a-z0-9]+(?:-[a-z0-9]+)*$/\<close>. The pattern is
  anchored at both ends and has no flags, so \<^verbatim>\<open>test\<close> answers whether the whole string
  belongs to the language of the expression between the anchors. The expression is kept
  as a syntax tree; \<open>regex_test\<close> decides membership by taking the residual of the
  expression after each code unit.
\<close>

datatype regex =
    Fail
  | Eps
  | Chr code_unit
  | Range code_unit code_unit
  | Alt regex regex
  | Seq regex regex
  | Star regex

definition Plus :: "regex \<Rightarrow> regex" where
  "Plus r = Seq r (Star r)"

fun empty_ok :: "regex \<Rightarrow> bool" where
  "empty_ok Fail = False"
| "empty_ok Eps = True"
| "empty_ok (Chr c) = False"
| "empty_ok (Range lo hi) = False"
| "empty_ok (Alt r s) = (empty_ok r \<or> empty_ok s)"
| "empty_ok (Seq r s) = (empty_ok r \<and> empty_ok s)"
| "empty_ok (Star r) = True"

fun residual :: "code_unit \<Rightarrow> regex \<Rightarrow> regex" where
  "residual x Fail = Fail"
| "residual x Eps = Fail"
| "residual x (Chr c) = (if x = c then Eps else Fail)"
| "residual x (Range lo hi) = (if lo \<le> x \<and> x \<le> hi then Eps else Fail)"
| "residual x (Alt r s) = Alt (residual x r) (residual x s)"
| "residual x (Seq r s) =
     (if empty_ok r then Alt (Seq (residual x r) s) (residual x s)
      else Seq (residual x r) s)"
| "residual x (Star r) = Seq (residual x r) (Star r)"

fun regex_test :: "regex \<Rightarrow> jsstring \<Rightarrow> bool" where
  "regex_test r [] = empty_ok r"
| "regex_test r (x # xs) = regex_test (residual x r) xs"

text \<open>The character class \<^verbatim>\<open>[a-z0-9]\<close> and the slug pattern of the handler.\<close>

definition lower_alnum :: regex where
  "lower_alnum = Alt (Range 0x61 0x7A) (Range 0x30 0x39)"

definition slugPattern :: regex where
  "slugPattern = Seq (Plus lower_alnum) (Star (Seq (Chr 0x2D) (Plus lower_alnum)))"

text \<open>The language of an expression, as the reference for \<open>regex_test\<close>.\<close>

definition conc :: "jsstring set \<Rightarrow> jsstring set \<Rightarrow> jsstring set" where
  "conc A B = {u @ v | u v. u \<in> A \<and> v \<in> B}"

inductive_set iter :: "jsstring set \<Rightarrow> jsstring set" for A :: "jsstring set" where
  iter_nil: "[] \<in> iter A"
| iter_app: "u \<in> A \<Longrightarrow> v \<in> iter A \<Longrightarrow> u @ v \<in> iter A"

fun lang :: "regex \<Rightarrow> jsstring set" where
  "lang Fail = {}"
| "lang Eps = {[]}"
| "lang (Chr c) = {[c]}"
| "lang (Range lo hi) = {[x] | x. lo \<le> x \<and> x \<le> hi}"
| "lang (Alt r s) = lang r \<union> lang s"
| "lang (Seq r s) = conc (lang r) (lang s)"
| "lang (Star r) = iter (lang r)"

section \<open>The connection memoizer\<close>

text \<open>
  Exceptions are values: a JavaScript \<^verbatim>\<open>Error\<close> with its message. The handle is the
  \<^verbatim>\<open>mongoose\<close> instance that \<^verbatim>\<open>mongoose.connect\<close> resolves to; it is an object, hence
  always truthy, and is identified here by a number.
\<close>

datatype exn = Error string

datatype handle = Mongoose nat

datatype pstate = Pending | Fulfilled handle | Rejected exn

text \<open>
  \<^verbatim>\<open>interface MongooseCache { conn; promise }\<close>. A promise is named by its index in the
  promise table of the world.
\<close>

record MongooseCache =
  conn :: "handle option"
  promise :: "nat option"

text \<open>
  The state that the code reads and writes: the process-wide cache object, the promises
  created so far, the connection strings passed to \<^verbatim>\<open>mongoose.connect\<close> so far and the
  slugs passed to \<^verbatim>\<open>Event.findOne\<close> so far. The two logs make "no I/O happened" a
  statement about the state.
\<close>

record world =
  cached :: MongooseCache
  promises :: "pstate list"
  connect_calls :: "jsstring list"
  find_calls :: "jsstring list"

definition config_error :: exn where
  "config_error = Error ''Please define the MONGODB_URI environment variable inside .env''"

text \<open>
  Loading the module (lines 16 to 34 of the memoizer): read the connection string from
  the environment, throw if it is undefined or empty, then take the cache object from
  \<^verbatim>\<open>global.mongoose\<close> or create a fresh one and publish it there. The result is the
  constant \<^verbatim>\<open>MONGODB_URI\<close>, the cache and the new value of \<^verbatim>\<open>global.mongoose\<close>.
\<close>

definition load_module ::
  "(string \<rightharpoonup> jsstring) \<Rightarrow> MongooseCache option \<Rightarrow>
     exn + (jsstring \<times> MongooseCache \<times> MongooseCache option)" where
  "load_module env global_mongoose =
     (case env ''MONGODB_URI'' of
        None \<Rightarrow> Inl config_error
      | Some uri \<Rightarrow>
          if uri = [] then Inl config_error
          else
            let c = (case global_mongoose of
                       Some g \<Rightarrow> g
                     | None \<Rightarrow> \<lparr>conn = None, promise = None\<rparr>)
            in Inr (uri, c, Some c))"

text \<open>
  \<^verbatim>\<open>connectDB\<close> is an async function with one suspension point, the
  \<^verbatim>\<open>await cached.promise\<close> of line 68. JavaScript runs the code before and after a
  suspension point without interruption, so a call is two atomic steps. The first step,
  \<open>connectDB_start\<close>, runs lines 44 to 64 and the evaluation of \<^verbatim>\<open>cached.promise\<close>: it
  returns at once, throws, or suspends on a promise. The second step, \<open>connectDB_resume\<close>,
  is the rest of the \<^verbatim>\<open>try\<close> statement, run with the value or the rejection of that
  promise. The \<^verbatim>\<open>.then\<close> callback of line 61 is the identity, so the stored promise
  settles as the one of \<^verbatim>\<open>mongoose.connect\<close> does, and one table entry stands for both.
\<close>

datatype suspension = Returned handle | Threw exn | Awaiting nat

definition connectDB_start :: "jsstring option \<Rightarrow> world \<Rightarrow> suspension \<times> world" where
  "connectDB_start MONGODB_URI w =
     (case conn (cached w) of
        Some h \<Rightarrow> (Returned h, w)
      | None \<Rightarrow>
          (case promise (cached w) of
             Some p \<Rightarrow> (Awaiting p, w)
           | None \<Rightarrow>
               (case MONGODB_URI of
                  None \<Rightarrow> (Threw config_error, w)
                | Some uri \<Rightarrow>
                    if uri = [] then (Threw config_error, w)
                    else
                      let p = length (promises w)
                      in (Awaiting p,
                          w\<lparr>cached := (cached w)\<lparr>promise := Some p\<rparr>,
                            promises := promises w @ [Pending],
                            connect_calls := connect_calls w @ [uri]\<rparr>))))"

definition connectDB_resume :: "exn + handle \<Rightarrow> world \<Rightarrow> (exn + handle) \<times> world" where
  "connectDB_resume settled w =
     (case settled of
        Inr h \<Rightarrow> (Inr h, w\<lparr>cached := (cached w)\<lparr>conn := Some h\<rparr>\<rparr>)
      | Inl e \<Rightarrow> (Inl e, w\<lparr>cached := (cached w)\<lparr>promise := None\<rparr>\<rparr>))"

text \<open>
  The network settles a pending promise: it is fulfilled with a handle or rejected with
  an error.
\<close>

definition settle :: "nat \<Rightarrow> exn + handle \<Rightarrow> world \<Rightarrow> world" where
  "settle p outcome w =
     w\<lparr>promises := (promises w)[p := (case outcome of
                                         Inl e \<Rightarrow> Rejected e
                                       | Inr h \<Rightarrow> Fulfilled h)]\<rparr>"

text \<open>
  One call run alone, from start to end. When the call suspends on a promise that is
  still pending, the attempt behind it ends with \<open>net\<close>, the answer of the network; a
  promise that is settled already gives its own value. The code never holds a promise
  that is missing from the table; such an index is read as a pending promise.
\<close>

definition await :: "nat \<Rightarrow> exn + handle \<Rightarrow> world \<Rightarrow> (exn + handle) \<times> world" where
  "await p net w =
     (if p < length (promises w) then
        (case promises w ! p of
           Pending \<Rightarrow> (net, settle p net w)
         | Fulfilled h \<Rightarrow> (Inr h, w)
         | Rejected e \<Rightarrow> (Inl e, w))
      else (net, w))"

definition connectDB ::
  "jsstring option \<Rightarrow> exn + handle \<Rightarrow> world \<Rightarrow> (exn + handle) \<times> world" where
  "connectDB MONGODB_URI net w =
     (case connectDB_start MONGODB_URI w of
        (Returned h, w1) \<Rightarrow> (Inr h, w1)
      | (Threw e, w1) \<Rightarrow> (Inl e, w1)
      | (Awaiting p, w1) \<Rightarrow>
          (case await p net w1 of (settled, w2) \<Rightarrow> connectDB_resume settled w2))"

subsection \<open>Concurrent callers\<close>

text \<open>
  Several requests call \<^verbatim>\<open>connectDB\<close> before the connection attempt has ended. Each
  call runs its first step when it is made; a call that suspended is a task waiting on a
  promise. When that promise settles, the continuations of its waiting tasks run in the
  order in which they suspended, which is the order of the reaction queue of a promise.
\<close>

datatype task = Waiting nat | Finished "exn + handle"

fun task_of :: "suspension \<Rightarrow> task" where
  "task_of (Returned h) = Finished (Inr h)"
| "task_of (Threw e) = Finished (Inl e)"
| "task_of (Awaiting p) = Waiting p"

fun spawn :: "jsstring option \<Rightarrow> nat \<Rightarrow> world \<Rightarrow> task list \<times> world" where
  "spawn MONGODB_URI 0 w = ([], w)"
| "spawn MONGODB_URI (Suc n) w =
     (case connectDB_start MONGODB_URI w of
        (s, w1) \<Rightarrow>
          (case spawn MONGODB_URI n w1 of (ts, w2) \<Rightarrow> (task_of s # ts, w2)))"

fun wake :: "nat \<Rightarrow> exn + handle \<Rightarrow> task list \<Rightarrow> world \<Rightarrow> task list \<times> world" where
  "wake p outcome [] w = ([], w)"
| "wake p outcome (Finished r # ts) w =
     (case wake p outcome ts w of (ts', w') \<Rightarrow> (Finished r # ts', w'))"
| "wake p outcome (Waiting q # ts) w =
     (if q = p then
        (case connectDB_resume outcome w of
           (r, w1) \<Rightarrow>
             (case wake p outcome ts w1 of (ts', w2) \<Rightarrow> (Finished r # ts', w2)))
      else
        (case wake p outcome ts w of (ts', w') \<Rightarrow> (Waiting q # ts', w')))"

definition cold_start ::
  "jsstring option \<Rightarrow> nat \<Rightarrow> exn + handle \<Rightarrow> world \<Rightarrow> task list \<times> world" where
  "cold_start MONGODB_URI n outcome w =
     (case spawn MONGODB_URI n w of
        (ts, w1) \<Rightarrow>
          let p = length (promises w)
          in wake p outcome ts (settle p outcome w1))"

section \<open>The route handler\<close>

text \<open>
  A response is a status and the JSON body that \<^verbatim>\<open>NextResponse.json\<close> produces from its
  argument, kept as the members of the serialized object in the order of the object
  literal. \<^verbatim>\<open>NextResponse.json\<close> serializes with \<^verbatim>\<open>JSON.stringify\<close>. A boolean and a string
  member always serialize; the member \<^verbatim>\<open>event\<close> holds the JSON that the document
  serializes to, of a type \<open>'j\<close> that is a parameter, as the documents are.
\<close>

datatype 'j json = JsonBool bool | JsonString string | JsonDoc 'j

record 'j response =
  status :: nat
  body :: "(string \<times> 'j json) list"

definition respond :: "(string \<times> 'j json) list \<Rightarrow> nat \<Rightarrow> 'j response" where
  "respond b st = \<lparr>status = st, body = b\<rparr>"

definition missing_slug :: "jsval \<Rightarrow> bool" where
  "missing_slug slug \<longleftrightarrow>
     \<not> truthy slug \<or> typeof slug \<noteq> ''string'' \<or>
     (case slug of JStr s \<Rightarrow> trim s = [] | _ \<Rightarrow> False)"

text \<open>
  \<^verbatim>\<open>GET\<close> of the route. The model \<^verbatim>\<open>Event\<close> lives outside the two source files, so the
  query \<^verbatim>\<open>Event.findOne({ slug }).lean()\<close> is the parameter \<open>findOne\<close>: for a slug it
  throws, or gives \<^verbatim>\<open>null\<close>, or gives a plain document (an object, hence truthy).
  What a document holds is decided by that model too, so the serialization of a document
  by \<^verbatim>\<open>JSON.stringify\<close> is the parameter \<open>stringify\<close>: it throws (a BigInt field, a cycle,
  a throwing \<^verbatim>\<open>toJSON\<close>) or gives the JSON of the document. The call
  \<^verbatim>\<open>NextResponse.json({ success: true, event }, { status: 200 })\<close> of line 70 stands inside
  the \<^verbatim>\<open>try\<close> block, so an exception of the serialization reaches the \<^verbatim>\<open>catch\<close> clause
  like one of the connection or of the query. The other bodies are object literals of a
  boolean and a string constant, whose serialization does not throw.
  \<open>MONGODB_URI\<close> and \<open>net\<close> are the parameters of \<open>connectDB\<close>. Each \<^verbatim>\<open>await\<close> in the handler
  is taken to settle, with a value or with an exception; the \<^verbatim>\<open>catch\<close> clause turns every
  exception of the \<^verbatim>\<open>try\<close> block into the 500 response. After the first test the slug
  is a string, which the \<^verbatim>\<open>case\<close> reads; its last branch is never taken, since
  \<open>missing_slug\<close> holds of every value that is not a string.
\<close>

definition GET ::
  "jsstring option \<Rightarrow> exn + handle \<Rightarrow> (jsstring \<Rightarrow> exn + 'doc option) \<Rightarrow>
     ('doc \<Rightarrow> exn + 'j) \<Rightarrow> jsval \<Rightarrow> world \<Rightarrow> 'j response \<times> world" where
  "GET MONGODB_URI net findOne stringify slug w =
     (if missing_slug slug then
        (respond [(''success'', JsonBool False),
                  (''error'', JsonString ''Invalid or missing slug parameter'')] 400, w)
      else
        (case slug of
           JStr s \<Rightarrow>
             if \<not> regex_test slugPattern s then
               (respond [(''success'', JsonBool False),
                         (''error'', JsonString
                            ''Invalid slug format. Slug must be lowercase alphanumeric with hyphens.'')]
                  400, w)
             else
               (case connectDB MONGODB_URI net w of
                  (Inl error, w1) \<Rightarrow>
                    (respond [(''success'', JsonBool False),
                              (''error'', JsonString
                                 ''An unexpected error occurred while fetching the event'')] 500, w1)
                | (Inr h, w1) \<Rightarrow>
                    let w2 = w1\<lparr>find_calls := find_calls w1 @ [s]\<rparr>
                    in (case findOne s of
                          Inl error \<Rightarrow>
                            (respond [(''success'', JsonBool False),
                                      (''error'', JsonString
                                         ''An unexpected error occurred while fetching the event'')]
                               500, w2)
                        | Inr None \<Rightarrow>
                            (respond [(''success'', JsonBool False),
                                      (''error'', JsonString ''Event not found'')] 404, w2)
                        | Inr (Some event) \<Rightarrow>
                            (case stringify event of
                               Inl error \<Rightarrow>
                                 (respond [(''success'', JsonBool False),
                                           (''error'', JsonString
                                              ''An unexpected error occurred while fetching the event'')]
                                    500, w2)
                             | Inr j \<Rightarrow>
                                 (respond [(''success'', JsonBool True),
                                           (''event'', JsonDoc j)] 200, w2))))
         | _ \<Rightarrow>
             (respond [(''success'', JsonBool False),
                       (''error'', JsonString
                          ''An unexpected error occurred while fetching the event'')] 500, w)))"

section \<open>Reference notions and example data\<close>

text \<open>The code units of \<^verbatim>\<open>[a-z0-9]\<close>, as a predicate.\<close>

definition is_lower_alnum :: "code_unit \<Rightarrow> bool" where
  "is_lower_alnum c \<longleftrightarrow> (0x61 \<le> c \<and> c \<le> 0x7A) \<or> (0x30 \<le> c \<and> c \<le> 0x39)"

text \<open>
  Example data for the concrete instances below: a process that has just started (nothing
  cached, no promise created, nothing sent), and a store of documents whose fields are
  strings or BigInts. The store holds one event of string fields and one event with a
  BigInt field. The example serialization gives the fields of a document in order, each
  with the text of its string, and throws at the first BigInt, as \<^verbatim>\<open>JSON.stringify\<close>
  does.
\<close>

definition cold_world :: world where
  "cold_world = \<lparr>cached = \<lparr>conn = None, promise = None\<rparr>, promises = [],
         connect_calls = [], find_calls = []\<rparr>"

datatype example_value = VString string | VBigInt int

definition example_findOne :: "jsstring \<Rightarrow> exn + (string \<times> example_value) list option" where
  "example_findOne s =
     (if s = js ''summer-fest-2024''
      then Inr (Some [(''slug'', VString ''summer-fest-2024''),
                      (''title'', VString ''Summer Fest'')])
      else if s = js ''big-event''
      then Inr (Some [(''slug'', VString ''big-event''),
                      (''seats'', VBigInt 9007199254740993)])
      else Inr None)"

fun example_stringify :: "(string \<times> example_value) list \<Rightarrow> exn + (string \<times> string) list" where
  "example_stringify [] = Inr []"
| "example_stringify ((k, VString v) # rest) =
     (case example_stringify rest of
        Inl e \<Rightarrow> Inl e
      | Inr members \<Rightarrow> Inr ((k, v) # members))"
| "example_stringify ((k, VBigInt n) # rest) =
     Inl (Error ''Do not know how to serialize a BigInt'')"

text \<open>The handler of a process configured with a connection string, facing that store.\<close>

abbreviation example_GET ::
  "jsval \<Rightarrow> world \<Rightarrow> (string \<times> string) list response \<times> world" where
  "example_GET \<equiv>
     GET (Some (js ''mongodb://db'')) (Inr (Mongoose 7)) example_findOne example_stringify"

section \<open>Properties of the regular-expression test\<close>

lemma conc_cons:
  "x # w \<in> conc A B \<longleftrightarrow>
     (\<exists>u v. w = u @ v \<and> x # u \<in> A \<and> v \<in> B) \<or> ([] \<in> A \<and> x # w \<in> B)"
proof
  assume "x # w \<in> conc A B"
  then obtain u v where uv: "x # w = u @ v" "u \<in> A" "v \<in> B"
    by (auto simp: conc_def)
  show "(\<exists>u v. w = u @ v \<and> x # u \<in> A \<and> v \<in> B) \<or> ([] \<in> A \<and> x # w \<in> B)"
  proof (cases u)
    case Nil
    with uv show ?thesis by simp
  next
    case (Cons y u')
    with uv have "w = u' @ v" "x # u' \<in> A" by simp_all
    with uv show ?thesis by blast
  qed
next
  assume "(\<exists>u v. w = u @ v \<and> x # u \<in> A \<and> v \<in> B) \<or> ([] \<in> A \<and> x # w \<in> B)"
  then show "x # w \<in> conc A B"
  proof
    assume "\<exists>u v. w = u @ v \<and> x # u \<in> A \<and> v \<in> B"
    then obtain u v where "w = u @ v" "x # u \<in> A" "v \<in> B" by blast
    then have "x # w = (x # u) @ v \<and> x # u \<in> A \<and> v \<in> B" by simp
    then show ?thesis unfolding conc_def by blast
  next
    assume "[] \<in> A \<and> x # w \<in> B"
    then have "x # w = [] @ (x # w) \<and> [] \<in> A \<and> x # w \<in> B" by simp
    then show ?thesis unfolding conc_def by blast
  qed
qed

lemma iter_cons_split:
  assumes "z \<in> iter A" and "z = x # w"
  shows "\<exists>u v. w = u @ v \<and> x # u \<in> A \<and> v \<in> iter A"
  using assms
proof (induction rule: iter.induct)
  case iter_nil
  then show ?case by simp
next
  case (iter_app u v)
  show ?case
  proof (cases u)
    case Nil
    with iter_app show ?thesis by simp
  next
    case (Cons y u')
    with iter_app.prems have "w = u' @ v" "y = x" by simp_all
    with Cons iter_app.hyps show ?thesis by blast
  qed
qed

lemma iter_cons:
  "x # w \<in> iter A \<longleftrightarrow> (\<exists>u v. w = u @ v \<and> x # u \<in> A \<and> v \<in> iter A)"
proof
  assume "x # w \<in> iter A"
  then show "\<exists>u v. w = u @ v \<and> x # u \<in> A \<and> v \<in> iter A"
    by (rule iter_cons_split) simp
next
  assume "\<exists>u v. w = u @ v \<and> x # u \<in> A \<and> v \<in> iter A"
  then obtain u v where "w = u @ v" "x # u \<in> A" "v \<in> iter A" by blast
  then show "x # w \<in> iter A"
    using iter_app [of "x # u" A v] by simp
qed

lemma empty_ok_lang: "empty_ok r \<longleftrightarrow> [] \<in> lang r"
  by (induction r) (auto simp: conc_def intro: iter_nil)

lemma residual_lang: "w \<in> lang (residual x r) \<longleftrightarrow> x # w \<in> lang r"
proof (induction r arbitrary: w)
  case (Seq r s)
  then show ?case
    by (auto simp: conc_cons empty_ok_lang) (auto simp: conc_def)
next
  case (Star r)
  then show ?case
    by (auto simp: iter_cons) (auto simp: conc_def)
qed auto

lemma regex_test_lang: "regex_test r s \<longleftrightarrow> s \<in> lang r"
  by (induction s arbitrary: r) (simp_all add: empty_ok_lang residual_lang)

lemma trim_empty_iff: "trim s = [] \<longleftrightarrow> (\<forall>c \<in> set s. is_ws c)"
proof -
  have "trim s = [] \<longleftrightarrow> (\<forall>c \<in> set (dropWhile is_ws s). is_ws c)"
    by (simp add: trim_def dropWhile_eq_Nil_conv)
  also have "\<dots> \<longleftrightarrow> dropWhile is_ws s = []"
  proof
    assume all: "\<forall>c \<in> set (dropWhile is_ws s). is_ws c"
    show "dropWhile is_ws s = []"
    proof (cases "dropWhile is_ws s")
      case Nil
      then show ?thesis .
    next
      case (Cons y ys)
      then have "\<not> is_ws y" using hd_dropWhile [of is_ws s] by simp
      moreover from Cons all have "is_ws y" by simp
      ultimately show ?thesis by simp
    qed
  next
    assume d: "dropWhile is_ws s = []"
    show "\<forall>c \<in> set (dropWhile is_ws s). is_ws c"
      unfolding d by simp
  qed
  also have "\<dots> \<longleftrightarrow> (\<forall>c \<in> set s. is_ws c)"
    by (simp add: dropWhile_eq_Nil_conv)
  finally show ?thesis .
qed

lemma lang_lower_alnum: "lang lower_alnum = {[x] | x. is_lower_alnum x}"
  by (auto simp: lower_alnum_def is_lower_alnum_def)

lemma lower_alnum_not_ws: "is_lower_alnum c \<Longrightarrow> \<not> is_ws c"
  unfolding is_lower_alnum_def is_ws_def
  by (auto simp: word_le_nat_alt word_less_nat_alt)

lemma slug_starts_alnum:
  assumes "regex_test slugPattern s"
  shows "\<exists>x t. s = x # t \<and> is_lower_alnum x"
proof -
  from assms have "s \<in> lang slugPattern" by (simp add: regex_test_lang)
  then show ?thesis
    by (auto simp: slugPattern_def Plus_def conc_def lang_lower_alnum)
qed

lemma slug_not_missing: "regex_test slugPattern s \<Longrightarrow> \<not> missing_slug (JStr s)"
proof -
  assume "regex_test slugPattern s"
  then obtain x t where s: "s = x # t" and x: "is_lower_alnum x"
    using slug_starts_alnum by blast
  from x have "\<not> is_ws x" by (rule lower_alnum_not_ws)
  with s have "trim s \<noteq> []" by (auto simp: trim_empty_iff)
  with s show ?thesis by (simp add: missing_slug_def)
qed

lemma missing_slug_non_string: "\<forall>s. slug \<noteq> JStr s \<Longrightarrow> missing_slug slug"
  by (cases slug) (simp_all add: missing_slug_def)

section \<open>Properties of the connection memoizer\<close>

lemma spawn_pending:
  "conn (cached w) = None \<Longrightarrow> promise (cached w) = Some p \<Longrightarrow>
   spawn U n w = (replicate n (Waiting p), w)"
  by (induction n) (simp_all add: connectDB_start_def)

lemma start_cold:
  "conn (cached w) = None \<Longrightarrow> promise (cached w) = None \<Longrightarrow> uri \<noteq> [] \<Longrightarrow>
   connectDB_start (Some uri) w =
     (Awaiting (length (promises w)),
      w\<lparr>cached := (cached w)\<lparr>promise := Some (length (promises w))\<rparr>,
        promises := promises w @ [Pending],
        connect_calls := connect_calls w @ [uri]\<rparr>)"
  by (simp add: connectDB_start_def Let_def)

lemma spawn_cold:
  assumes "conn (cached w) = None" "promise (cached w) = None" "uri \<noteq> []"
  shows "spawn (Some uri) (Suc n) w =
     (replicate (Suc n) (Waiting (length (promises w))),
      w\<lparr>cached := (cached w)\<lparr>promise := Some (length (promises w))\<rparr>,
        promises := promises w @ [Pending],
        connect_calls := connect_calls w @ [uri]\<rparr>)"
  using assms by (simp add: start_cold spawn_pending)

lemma wake_success:
  "wake p (Inr h) (replicate n (Waiting p)) w =
     (replicate n (Finished (Inr h)),
      if n = 0 then w else w\<lparr>cached := (cached w)\<lparr>conn := Some h\<rparr>\<rparr>)"
  by (induction n arbitrary: w) (simp_all add: connectDB_resume_def)

lemma wake_failure:
  "wake p (Inl e) (replicate n (Waiting p)) w =
     (replicate n (Finished (Inl e)),
      if n = 0 then w else w\<lparr>cached := (cached w)\<lparr>promise := None\<rparr>\<rparr>)"
  by (induction n arbitrary: w) (simp_all add: connectDB_resume_def)

text \<open>
  C1. Any number \<open>n > 0\<close> of calls made against a cold cache (no connection, no pending
  promise), all before the attempt ends, start exactly one \<^verbatim>\<open>mongoose.connect\<close>: after the
  first steps of the \<open>n\<close> calls the log of connection attempts has grown by one entry, one
  promise has been created, and every caller waits on that promise. When the promise
  settles, every caller finishes with its outcome, the same handle or the same error, no
  further attempt has been started, and the handle is cached exactly when the attempt
  succeeded.
\<close>

theorem cold_start_single_attempt:
  assumes cold: "conn (cached w) = None" "promise (cached w) = None"
    and uri: "uri \<noteq> []" and n: "0 < n"
  shows "fst (spawn (Some uri) n w) = replicate n (Waiting (length (promises w))) \<and>
         connect_calls (snd (spawn (Some uri) n w)) = connect_calls w @ [uri] \<and>
         promises (snd (spawn (Some uri) n w)) = promises w @ [Pending] \<and>
         fst (cold_start (Some uri) n outcome w) = replicate n (Finished outcome) \<and>
         connect_calls (snd (cold_start (Some uri) n outcome w)) = connect_calls w @ [uri] \<and>
         conn (cached (snd (cold_start (Some uri) n outcome w))) =
           (case outcome of Inl e \<Rightarrow> None | Inr h \<Rightarrow> Some h)"
proof -
  from n obtain m where m: "n = Suc m" by (cases n) auto
  let ?p = "length (promises w)"
  let ?w1 = "w\<lparr>cached := (cached w)\<lparr>promise := Some ?p\<rparr>,
               promises := promises w @ [Pending],
               connect_calls := connect_calls w @ [uri]\<rparr>"
  have sp: "spawn (Some uri) n w = (replicate n (Waiting ?p), ?w1)"
    unfolding m using cold uri by (rule spawn_cold)
  let ?w2 = "settle ?p outcome ?w1"
  have w2: "connect_calls ?w2 = connect_calls w @ [uri]" "conn (cached ?w2) = None"
    using cold by (simp_all add: settle_def)
  have cs: "cold_start (Some uri) n outcome w =
              wake ?p outcome (replicate n (Waiting ?p)) ?w2"
    using sp by (simp add: cold_start_def Let_def)
  have fin: "fst (cold_start (Some uri) n outcome w) = replicate n (Finished outcome) \<and>
             connect_calls (snd (cold_start (Some uri) n outcome w)) = connect_calls w @ [uri] \<and>
             conn (cached (snd (cold_start (Some uri) n outcome w))) =
               (case outcome of Inl e \<Rightarrow> None | Inr h \<Rightarrow> Some h)"
  proof (cases outcome)
    case (Inl e)
    with cs w2 n show ?thesis by (simp add: wake_failure)
  next
    case (Inr h)
    with cs w2 n show ?thesis by (simp add: wake_success)
  qed
  from sp fin show ?thesis by simp
qed

text \<open>The statement above at concrete inputs.\<close>

theorem cold_start_single_attempt_witness:
  "conn (cached cold_world) = None \<and> promise (cached cold_world) = None \<and>
   js ''mongodb://db'' \<noteq> [] \<and> (0::nat) < 3 \<and>
   fst (spawn (Some (js ''mongodb://db'')) 3 cold_world) = [Waiting 0, Waiting 0, Waiting 0] \<and>
   connect_calls (snd (spawn (Some (js ''mongodb://db'')) 3 cold_world)) = [js ''mongodb://db''] \<and>
   fst (cold_start (Some (js ''mongodb://db'')) 3 (Inr (Mongoose 7)) cold_world) =
     [Finished (Inr (Mongoose 7)), Finished (Inr (Mongoose 7)), Finished (Inr (Mongoose 7))] \<and>
   connect_calls (snd (cold_start (Some (js ''mongodb://db'')) 3 (Inr (Mongoose 7)) cold_world)) =
     [js ''mongodb://db''] \<and>
   fst (cold_start (Some (js ''mongodb://db'')) 3 (Inl (Error ''ECONNREFUSED'')) cold_world) =
     [Finished (Inl (Error ''ECONNREFUSED'')), Finished (Inl (Error ''ECONNREFUSED'')),
      Finished (Inl (Error ''ECONNREFUSED''))] \<and>
   connect_calls (snd (cold_start (Some (js ''mongodb://db'')) 3 (Inl (Error ''ECONNREFUSED''))
                         cold_world)) =
     [js ''mongodb://db'']"
  using cold_start_single_attempt [of cold_world "js ''mongodb://db''" 3 "Inr (Mongoose 7)"]
    cold_start_single_attempt [of cold_world "js ''mongodb://db''" 3 "Inl (Error ''ECONNREFUSED'')"]
  by (simp add: cold_world_def js_def numeral_3_eq_3)

lemma await_keeps:
  "await p net w = (r, w') \<Longrightarrow>
   cached w' = cached w \<and> connect_calls w' = connect_calls w \<and> find_calls w' = find_calls w \<and>
   length (promises w') = length (promises w)"
  by (auto simp: await_def settle_def split: if_splits pstate.splits)

lemma start_keeps_find: "connectDB_start U w = (s, w') \<Longrightarrow> find_calls w' = find_calls w"
  by (auto simp: connectDB_start_def Let_def split: option.splits if_splits)

lemma connectDB_cases:
  assumes "connectDB U net w = (r, w')"
  obtains
    (warm) h where "conn (cached w) = Some h" "r = Inr h" "w' = w"
  | (config) "conn (cached w) = None" "promise (cached w) = None"
      "U = None \<or> U = Some []" "r = Inl config_error" "w' = w"
  | (awaited) p w1 settled w2 where "conn (cached w) = None"
      "connectDB_start U w = (Awaiting p, w1)" "conn (cached w1) = None"
      "await p net w1 = (settled, w2)" "connectDB_resume settled w2 = (r, w')"
proof (cases "conn (cached w)")
  case (Some h)
  with assms have "r = Inr h" "w' = w"
    by (simp_all add: connectDB_def connectDB_start_def)
  with Some show ?thesis by (rule warm)
next
  case None
  obtain s w1 where st: "connectDB_start U w = (s, w1)"
    by (cases "connectDB_start U w")
  show ?thesis
  proof (cases s)
    case (Returned h)
    with st None show ?thesis
      by (auto simp: connectDB_start_def Let_def split: option.splits if_splits)
  next
    case (Threw e)
    with st None have "promise (cached w) = None" "U = None \<or> U = Some []"
      "e = config_error" "w1 = w"
      by (auto simp: connectDB_start_def Let_def split: option.splits if_splits)
    moreover from assms st Threw have "r = Inl e" "w' = w1"
      by (simp_all add: connectDB_def)
    ultimately show ?thesis using None by (auto intro: config)
  next
    case (Awaiting p)
    obtain settled w2 where aw: "await p net w1 = (settled, w2)"
      by (cases "await p net w1")
    from st Awaiting None have c1: "conn (cached w1) = None"
      by (auto simp: connectDB_start_def Let_def split: option.splits if_splits)
    from assms st Awaiting aw have "connectDB_resume settled w2 = (r, w')"
      by (simp add: connectDB_def)
    with None st Awaiting c1 aw show ?thesis by (auto intro: awaited)
  qed
qed

lemma connectDB_failed_cache:
  assumes "connectDB U net w = (Inl e, w')"
  shows "conn (cached w') = None \<and> promise (cached w') = None"
  using assms
proof (cases rule: connectDB_cases)
  case (warm h)
  then show ?thesis by simp
next
  case config
  then show ?thesis by simp
next
  case (awaited p w1 settled w2)
  from awaited(4) have "cached w2 = cached w1" by (simp add: await_keeps)
  with awaited(3,5) show ?thesis
    by (auto simp: connectDB_resume_def split: sum.splits)
qed

lemma connectDB_ok_cache:
  assumes "connectDB U net w = (Inr h, w')"
  shows "conn (cached w') = Some h"
  using assms
proof (cases rule: connectDB_cases)
  case (warm h')
  then show ?thesis by simp
next
  case config
  then show ?thesis by simp
next
  case (awaited p w1 settled w2)
  then show ?thesis
    by (auto simp: connectDB_resume_def split: sum.splits)
qed

lemma connectDB_warm:
  "conn (cached w) = Some h \<Longrightarrow> connectDB U net w = (Inr h, w)"
  by (simp add: connectDB_def connectDB_start_def)

lemma connectDB_keeps_find:
  assumes "connectDB U net w = (r, w')"
  shows "find_calls w' = find_calls w"
  using assms
proof (cases rule: connectDB_cases)
  case (awaited p w1 settled w2)
  then show ?thesis
    using start_keeps_find [of U w "Awaiting p" w1] await_keeps [of p net w1 settled w2]
    by (auto simp: connectDB_resume_def split: sum.splits)
qed simp_all

text \<open>
  C2. A call that finds no cached connection and either starts the attempt itself or joins
  a pending one, and whose attempt is rejected with \<open>e\<close>, throws \<open>e\<close> to its caller and leaves
  the cache with both fields unset: the promise is cleared and nothing is stored in
  \<open>conn\<close>. The next call therefore starts a fresh attempt, which appears as a new entry in
  the log of connection attempts.
\<close>

theorem connectDB_failure_resets:
  assumes "conn (cached w) = None"
    and "promise (cached w) = None \<or>
         (\<exists>p. promise (cached w) = Some p \<and> p < length (promises w) \<and> promises w ! p = Pending)"
    and "uri \<noteq> []"
  shows "fst (connectDB (Some uri) (Inl e) w) = Inl e \<and>
         cached (snd (connectDB (Some uri) (Inl e) w)) = \<lparr>conn = None, promise = None\<rparr> \<and>
         (let w' = snd (connectDB (Some uri) (Inl e) w)
          in fst (connectDB_start (Some uri) w') = Awaiting (length (promises w')) \<and>
             connect_calls (snd (connectDB_start (Some uri) w')) = connect_calls w' @ [uri])"
proof -
  obtain r w' where run: "connectDB (Some uri) (Inl e) w = (r, w')"
    by (cases "connectDB (Some uri) (Inl e) w")
  have r: "r = Inl e"
    using assms(2)
  proof
    assume "promise (cached w) = None"
    with assms(1,3) run show ?thesis
      by (auto simp: connectDB_def start_cold await_def settle_def connectDB_resume_def)
  next
    assume "\<exists>p. promise (cached w) = Some p \<and> p < length (promises w) \<and> promises w ! p = Pending"
    with assms(1) run show ?thesis
      by (auto simp: connectDB_def connectDB_start_def await_def settle_def connectDB_resume_def)
  qed
  with run have c: "conn (cached w') = None" "promise (cached w') = None"
    using connectDB_failed_cache [of "Some uri" "Inl e" w e w'] by simp_all
  then have "cached w' = \<lparr>conn = None, promise = None\<rparr>" by simp
  moreover from c assms(3) have "connectDB_start (Some uri) w' =
     (Awaiting (length (promises w')),
      w'\<lparr>cached := (cached w')\<lparr>promise := Some (length (promises w'))\<rparr>,
        promises := promises w' @ [Pending],
        connect_calls := connect_calls w' @ [uri]\<rparr>)"
    by (rule start_cold)
  ultimately show ?thesis using run r by (simp add: Let_def)
qed

text \<open>The statement above at concrete inputs.\<close>

theorem connectDB_failure_resets_witness:
  "fst (connectDB (Some (js ''mongodb://db'')) (Inl (Error ''ECONNREFUSED'')) cold_world) =
     Inl (Error ''ECONNREFUSED'') \<and>
   cached (snd (connectDB (Some (js ''mongodb://db'')) (Inl (Error ''ECONNREFUSED'')) cold_world)) =
     \<lparr>conn = None, promise = None\<rparr>"
  using connectDB_failure_resets [of cold_world "js ''mongodb://db''" "Error ''ECONNREFUSED''"]
  by (simp add: cold_world_def js_def)

text \<open>
  C6. When \<open>conn\<close> is set, \<^verbatim>\<open>connectDB\<close> returns that handle in its first step and leaves
  the world as it is: no promise is created or awaited and nothing is sent. Hence, after
  any call that returned a handle, a second call returns the same handle and changes
  nothing, whatever the configuration and the network would answer.
\<close>

theorem connectDB_memoized:
  "(conn (cached w) = Some h \<longrightarrow>
      connectDB_start U w = (Returned h, w) \<and> connectDB U net w = (Inr h, w)) \<and>
   (fst (connectDB U net w) = Inr h \<longrightarrow>
      connectDB U' net' (snd (connectDB U net w)) = (Inr h, snd (connectDB U net w)))"
proof -
  have "connectDB U' net' (snd (connectDB U net w)) = (Inr h, snd (connectDB U net w))"
    if "fst (connectDB U net w) = Inr h"
  proof -
    from that have "connectDB U net w = (Inr h, snd (connectDB U net w))"
      by (metis prod.collapse)
    then have "conn (cached (snd (connectDB U net w))) = Some h"
      by (rule connectDB_ok_cache)
    then show ?thesis by (rule connectDB_warm)
  qed
  then show ?thesis by (simp add: connectDB_def connectDB_start_def)
qed

text \<open>The statement above at concrete inputs.\<close>

theorem connectDB_memoized_witness:
  "fst (connectDB (Some (js ''mongodb://db'')) (Inr (Mongoose 7)) cold_world) = Inr (Mongoose 7) \<and>
   connectDB None (Inl (Error ''down''))
       (snd (connectDB (Some (js ''mongodb://db'')) (Inr (Mongoose 7)) cold_world)) =
     (Inr (Mongoose 7), snd (connectDB (Some (js ''mongodb://db'')) (Inr (Mongoose 7)) cold_world)) \<and>
   conn (cached (snd (connectDB (Some (js ''mongodb://db'')) (Inr (Mongoose 7)) cold_world))) =
     Some (Mongoose 7) \<and>
   connectDB_start None (snd (connectDB (Some (js ''mongodb://db'')) (Inr (Mongoose 7)) cold_world)) =
     (Returned (Mongoose 7), snd (connectDB (Some (js ''mongodb://db'')) (Inr (Mongoose 7)) cold_world))"
proof -
  have run: "connectDB (Some (js ''mongodb://db'')) (Inr (Mongoose 7)) cold_world =
      (Inr (Mongoose 7),
       \<lparr>cached = \<lparr>conn = Some (Mongoose 7), promise = Some 0\<rparr>,
        promises = [Fulfilled (Mongoose 7)],
        connect_calls = [js ''mongodb://db''], find_calls = []\<rparr>)"
    by (simp add: cold_world_def js_def connectDB_def connectDB_start_def await_def settle_def
        connectDB_resume_def)
  show ?thesis
    using connectDB_memoized [of "snd (connectDB (Some (js ''mongodb://db'')) (Inr (Mongoose 7)) cold_world)"
        "Mongoose 7" None "Inl (Error ''down'')" None "Inl (Error ''down'')"]
      connectDB_memoized [of cold_world "Mongoose 7" "Some (js ''mongodb://db'')" "Inr (Mongoose 7)"
        None "Inl (Error ''down'')"]
    by (simp add: run)
qed

text \<open>
  C7. When the connection string is absent from the environment (or empty), loading the
  module throws the configuration error. The test inside \<^verbatim>\<open>connectDB\<close> does the same at
  first use: on a cold cache the call throws the configuration error in its first step and
  changes nothing, and with such a value no call ever adds an entry to the log of
  connection attempts.
\<close>

theorem missing_uri_fails:
  "(env ''MONGODB_URI'' = None \<or> env ''MONGODB_URI'' = Some [] \<longrightarrow>
      load_module env g = Inl config_error) \<and>
   (U = None \<or> U = Some [] \<longrightarrow>
      (conn (cached w) = None \<and> promise (cached w) = None \<longrightarrow>
         connectDB_start U w = (Threw config_error, w) \<and>
         connectDB U net w = (Inl config_error, w)) \<and>
      connect_calls (snd (connectDB U net w)) = connect_calls w)"
proof -
  have "connect_calls (snd (connectDB U net w)) = connect_calls w"
    if U: "U = None \<or> U = Some []"
  proof -
    obtain r w' where run: "connectDB U net w = (r, w')"
      by (cases "connectDB U net w")
    then have "connect_calls w' = connect_calls w"
    proof (cases rule: connectDB_cases)
      case (awaited p w1 settled w2)
      from awaited(2) U have "connect_calls w1 = connect_calls w"
        by (auto simp: connectDB_start_def split: option.splits)
      with awaited(4,5) show ?thesis
        using await_keeps [of p net w1 settled w2]
        by (auto simp: connectDB_resume_def split: sum.splits)
    qed simp_all
    with run show ?thesis by simp
  qed
  then show ?thesis
    by (auto simp: load_module_def connectDB_def connectDB_start_def)
qed

text \<open>The statement above at concrete inputs.\<close>

theorem missing_uri_fails_witness:
  "load_module Map.empty None = Inl config_error \<and>
   load_module [''MONGODB_URI'' \<mapsto> []] None = Inl config_error \<and>
   connectDB_start None cold_world = (Threw config_error, cold_world) \<and>
   connectDB None (Inr (Mongoose 7)) cold_world = (Inl config_error, cold_world) \<and>
   connect_calls (snd (connectDB None (Inr (Mongoose 7)) cold_world)) = []"
  using missing_uri_fails [of Map.empty None None cold_world "Inr (Mongoose 7)"]
    missing_uri_fails [of "[''MONGODB_URI'' \<mapsto> []]" None None cold_world "Inr (Mongoose 7)"]
  by (simp add: cold_world_def)

section \<open>Properties of the route handler\<close>

lemma example_connect:
  "connectDB (Some (js ''mongodb://db'')) (Inr (Mongoose 7)) cold_world =
     (Inr (Mongoose 7),
      \<lparr>cached = \<lparr>conn = Some (Mongoose 7), promise = Some 0\<rparr>,
       promises = [Fulfilled (Mongoose 7)],
       connect_calls = [js ''mongodb://db''], find_calls = []\<rparr>)"
  by (simp add: cold_world_def js_def connectDB_def connectDB_start_def await_def settle_def
      connectDB_resume_def)

lemma example_slug_ok: "regex_test slugPattern (js ''summer-fest-2024'')"
  by (simp add: js_def slugPattern_def Plus_def lower_alnum_def)

lemma example_slug_big: "regex_test slugPattern (js ''big-event'')"
  by (simp add: js_def slugPattern_def Plus_def lower_alnum_def)

lemma example_slug_absent: "regex_test slugPattern (js ''nonexistent-event'')"
  by (simp add: js_def slugPattern_def Plus_def lower_alnum_def)

lemma GET_valid:
  assumes "regex_test slugPattern s"
  shows "GET U net findOne stringify (JStr s) w =
     (case connectDB U net w of
        (Inl error, w1) \<Rightarrow>
          (respond [(''success'', JsonBool False),
                    (''error'', JsonString
                       ''An unexpected error occurred while fetching the event'')] 500, w1)
      | (Inr h, w1) \<Rightarrow>
          (case findOne s of
             Inl error \<Rightarrow>
               (respond [(''success'', JsonBool False),
                         (''error'', JsonString
                            ''An unexpected error occurred while fetching the event'')] 500,
                w1\<lparr>find_calls := find_calls w1 @ [s]\<rparr>)
           | Inr None \<Rightarrow>
               (respond [(''success'', JsonBool False),
                         (''error'', JsonString ''Event not found'')] 404,
                w1\<lparr>find_calls := find_calls w1 @ [s]\<rparr>)
           | Inr (Some event) \<Rightarrow>
               (case stringify event of
                  Inl error \<Rightarrow>
                    (respond [(''success'', JsonBool False),
                              (''error'', JsonString
                                 ''An unexpected error occurred while fetching the event'')] 500,
                     w1\<lparr>find_calls := find_calls w1 @ [s]\<rparr>)
                | Inr j \<Rightarrow>
                    (respond [(''success'', JsonBool True), (''event'', JsonDoc j)] 200,
                     w1\<lparr>find_calls := find_calls w1 @ [s]\<rparr>))))"
  using assms slug_not_missing [OF assms]
  by (simp add: GET_def Let_def split: prod.splits sum.splits option.splits)

text \<open>
  C3. For a slug that passes the pattern test, when the connection is acquired, the query
  gives a document and \<^verbatim>\<open>JSON.stringify\<close> serializes that document to \<open>j\<close>, the handler
  answers 200 with the body \<^verbatim>\<open>{ success: true, event }\<close>, where \<^verbatim>\<open>event\<close> is \<open>j\<close>, the
  JSON of the document that the query gave, with nothing added or removed by the handler.
\<close>

theorem GET_found:
  assumes "regex_test slugPattern s"
    and "fst (connectDB U net w) = Inr h"
    and "findOne s = Inr (Some event)"
    and "stringify event = Inr j"
  shows "fst (GET U net findOne stringify (JStr s) w) =
           \<lparr>status = 200, body = [(''success'', JsonBool True), (''event'', JsonDoc j)]\<rparr>"
  using assms(2,3,4)
  by (auto simp: GET_valid [OF assms(1)] respond_def split: prod.splits sum.splits)

text \<open>The statement above at concrete inputs.\<close>

theorem GET_found_witness:
  "regex_test slugPattern (js ''summer-fest-2024'') \<and>
   fst (connectDB (Some (js ''mongodb://db'')) (Inr (Mongoose 7)) cold_world) =
     Inr (Mongoose 7) \<and>
   example_findOne (js ''summer-fest-2024'') =
     Inr (Some [(''slug'', VString ''summer-fest-2024''), (''title'', VString ''Summer Fest'')]) \<and>
   example_stringify [(''slug'', VString ''summer-fest-2024''), (''title'', VString ''Summer Fest'')] =
     Inr [(''slug'', ''summer-fest-2024''), (''title'', ''Summer Fest'')] \<and>
   fst (example_GET (JStr (js ''summer-fest-2024'')) cold_world) =
     \<lparr>status = 200,
      body = [(''success'', JsonBool True),
              (''event'', JsonDoc [(''slug'', ''summer-fest-2024''), (''title'', ''Summer Fest'')])]\<rparr>"
proof -
  have f: "example_findOne (js ''summer-fest-2024'') =
     Inr (Some [(''slug'', VString ''summer-fest-2024''), (''title'', VString ''Summer Fest'')])"
    by (simp add: example_findOne_def)
  have j: "example_stringify
       [(''slug'', VString ''summer-fest-2024''), (''title'', VString ''Summer Fest'')] =
     Inr [(''slug'', ''summer-fest-2024''), (''title'', ''Summer Fest'')]"
    by simp
  have c: "fst (connectDB (Some (js ''mongodb://db'')) (Inr (Mongoose 7)) cold_world) =
      Inr (Mongoose 7)"
    by (simp add: example_connect)
  from GET_found [where findOne = example_findOne and stringify = example_stringify,
      OF example_slug_ok c f j] example_slug_ok c f j
  show ?thesis by simp
qed

text \<open>
  C4. For every string that fails the pattern test the handler answers 400 and leaves the
  world unchanged: the cache, the promises, the log of connection attempts and the log of
  queries are what they were, so the rejection happens before any I/O.
\<close>

theorem GET_rejects_malformed:
  assumes "\<not> regex_test slugPattern s"
  shows "status (fst (GET U net findOne stringify (JStr s) w)) = 400 \<and>
         snd (GET U net findOne stringify (JStr s) w) = w"
  using assms by (simp add: GET_def respond_def)

text \<open>The statement above at concrete inputs.\<close>

theorem GET_rejects_malformed_witness:
  "\<not> regex_test slugPattern (js ''Foo'') \<and>
   status (fst (example_GET (JStr (js ''Foo'')) cold_world)) = 400 \<and>
   snd (example_GET (JStr (js ''Foo'')) cold_world) = cold_world \<and>
   \<not> regex_test slugPattern (js ''foo_bar'') \<and>
   status (fst (example_GET (JStr (js ''foo_bar'')) cold_world)) = 400 \<and>
   snd (example_GET (JStr (js ''foo_bar'')) cold_world) = cold_world \<and>
   \<not> regex_test slugPattern (js ''-foo'') \<and>
   status (fst (example_GET (JStr (js ''-foo'')) cold_world)) = 400 \<and>
   snd (example_GET (JStr (js ''-foo'')) cold_world) = cold_world \<and>
   \<not> regex_test slugPattern (js ''foo-'') \<and>
   status (fst (example_GET (JStr (js ''foo-'')) cold_world)) = 400 \<and>
   snd (example_GET (JStr (js ''foo-'')) cold_world) = cold_world \<and>
   \<not> regex_test slugPattern (js []) \<and>
   status (fst (example_GET (JStr (js [])) cold_world)) = 400 \<and>
   snd (example_GET (JStr (js [])) cold_world) = cold_world"
proof -
  have bad: "\<not> regex_test slugPattern (js ''Foo'')" "\<not> regex_test slugPattern (js ''foo_bar'')"
    "\<not> regex_test slugPattern (js ''-foo'')" "\<not> regex_test slugPattern (js ''foo-'')"
    "\<not> regex_test slugPattern (js [])"
    by (simp_all add: js_def slugPattern_def Plus_def lower_alnum_def)
  show ?thesis
    using bad bad [THEN GET_rejects_malformed [of _ "Some (js ''mongodb://db'')" "Inr (Mongoose 7)"
          example_findOne example_stringify cold_world]]
    by simp
qed

text \<open>
  C5. For a slug that passes the pattern test, when acquiring the connection throws, or the
  connection is acquired and the query throws, the handler answers 500 with the fixed body
  \<^verbatim>\<open>{ success: false, error: "An unexpected error occurred while fetching the event" }\<close>.
  The exception \<open>e\<close> does not occur in the response.
\<close>

theorem GET_backend_failure:
  assumes "regex_test slugPattern s"
    and "fst (connectDB U net w) = Inl e \<or>
         (\<exists>h. fst (connectDB U net w) = Inr h \<and> findOne s = Inl e)"
  shows "fst (GET U net findOne stringify (JStr s) w) =
           \<lparr>status = 500,
            body = [(''success'', JsonBool False),
                    (''error'', JsonString
                       ''An unexpected error occurred while fetching the event'')]\<rparr>"
  using assms(2)
  by (auto simp: GET_valid [OF assms(1)] respond_def split: prod.splits sum.splits)

text \<open>The statement above at concrete inputs.\<close>

theorem GET_backend_failure_witness:
  "fst (GET (Some (js ''mongodb://db'')) (Inl (Error ''ECONNREFUSED 10.0.0.5:27017''))
          example_findOne example_stringify (JStr (js ''summer-fest-2024'')) cold_world) =
     \<lparr>status = 500,
      body = [(''success'', JsonBool False),
              (''error'', JsonString ''An unexpected error occurred while fetching the event'')]\<rparr> \<and>
   fst (GET (Some (js ''mongodb://db'')) (Inr (Mongoose 7))
          (\<lambda>s. Inl (Error ''MongoServerError: not authorized'') ::
                 exn + (string \<times> example_value) list option)
          example_stringify (JStr (js ''summer-fest-2024'')) cold_world) =
     \<lparr>status = 500,
      body = [(''success'', JsonBool False),
              (''error'', JsonString ''An unexpected error occurred while fetching the event'')]\<rparr>"
proof -
  have c1: "fst (connectDB (Some (js ''mongodb://db''))
                   (Inl (Error ''ECONNREFUSED 10.0.0.5:27017'')) cold_world) =
      Inl (Error ''ECONNREFUSED 10.0.0.5:27017'')"
    by (simp add: cold_world_def js_def connectDB_def connectDB_start_def await_def settle_def
        connectDB_resume_def)
  have c2: "\<exists>h. fst (connectDB (Some (js ''mongodb://db'')) (Inr (Mongoose 7)) cold_world) = Inr h \<and>
      (\<lambda>s. Inl (Error ''MongoServerError: not authorized'') ::
             exn + (string \<times> example_value) list option)
        (js ''summer-fest-2024'') = Inl (Error ''MongoServerError: not authorized'')"
    by (simp add: example_connect)
  show ?thesis
    using GET_backend_failure [where findOne = example_findOne and stringify = example_stringify,
        OF example_slug_ok disjI1 [OF c1]]
      GET_backend_failure [where stringify = example_stringify, OF example_slug_ok disjI2 [OF c2]]
    by simp
qed

text \<open>
  C8. For a slug that passes the pattern test, when the connection is acquired and the query
  gives \<^verbatim>\<open>null\<close>, the handler answers 404 with the body
  \<^verbatim>\<open>{ success: false, error: "Event not found" }\<close>.
\<close>

theorem GET_not_found:
  assumes "regex_test slugPattern s"
    and "fst (connectDB U net w) = Inr h"
    and "findOne s = Inr None"
  shows "fst (GET U net findOne stringify (JStr s) w) =
           \<lparr>status = 404,
            body = [(''success'', JsonBool False), (''error'', JsonString ''Event not found'')]\<rparr>"
  using assms(2,3)
  by (auto simp: GET_valid [OF assms(1)] respond_def split: prod.splits sum.splits)

text \<open>The statement above at concrete inputs.\<close>

theorem GET_not_found_witness:
  "regex_test slugPattern (js ''nonexistent-event'') \<and>
   example_findOne (js ''nonexistent-event'') = Inr None \<and>
   fst (example_GET (JStr (js ''nonexistent-event'')) cold_world) =
     \<lparr>status = 404,
      body = [(''success'', JsonBool False), (''error'', JsonString ''Event not found'')]\<rparr>"
proof -
  have f: "example_findOne (js ''nonexistent-event'') = Inr None"
    by (simp add: example_findOne_def js_def)
  have c: "fst (connectDB (Some (js ''mongodb://db'')) (Inr (Mongoose 7)) cold_world) =
      Inr (Mongoose 7)"
    by (simp add: example_connect)
  from GET_not_found [where findOne = example_findOne and stringify = example_stringify,
      OF example_slug_absent c f]
    example_slug_absent f
  show ?thesis by simp
qed

text \<open>
  C9. A slug that is not a string (in particular \<^verbatim>\<open>undefined\<close>), or a string that is empty
  after trimming, gets 400 with the message "Invalid or missing slug parameter" and no
  state change. The empty string is such a case, because the first test comes before the
  pattern test. A string with something left after trimming that fails the pattern gets
  400 with the other message, and the two messages differ.
\<close>

theorem GET_missing_slug:
  "((\<forall>s. slug \<noteq> JStr s) \<or> (\<exists>s. slug = JStr s \<and> trim s = []) \<longrightarrow>
      GET U net findOne stringify slug w =
        (\<lparr>status = 400,
          body = [(''success'', JsonBool False),
                  (''error'', JsonString ''Invalid or missing slug parameter'')]\<rparr>, w)) \<and>
   GET U net findOne stringify (JStr []) w =
     (\<lparr>status = 400,
       body = [(''success'', JsonBool False),
               (''error'', JsonString ''Invalid or missing slug parameter'')]\<rparr>, w) \<and>
   (trim t \<noteq> [] \<and> \<not> regex_test slugPattern t \<longrightarrow>
      GET U net findOne stringify (JStr t) w =
        (\<lparr>status = 400,
          body = [(''success'', JsonBool False),
                  (''error'', JsonString
                     ''Invalid slug format. Slug must be lowercase alphanumeric with hyphens.'')]\<rparr>, w)) \<and>
   ''Invalid or missing slug parameter'' \<noteq>
     ''Invalid slug format. Slug must be lowercase alphanumeric with hyphens.''"
proof -
  have a: "missing_slug slug" if "(\<forall>s. slug \<noteq> JStr s) \<or> (\<exists>s. slug = JStr s \<and> trim s = [])"
    using that by (auto simp: missing_slug_non_string) (simp add: missing_slug_def)
  have b: "missing_slug (JStr [])" by (simp add: missing_slug_def)
  have c: "\<not> missing_slug (JStr t)" if "trim t \<noteq> []"
    using that by (auto simp: missing_slug_def trim_def)
  show ?thesis
    using a b c by (simp add: GET_def respond_def)
qed

text \<open>The statement above at concrete inputs.\<close>

theorem GET_missing_slug_witness:
  "example_GET JUndefined cold_world =
     (\<lparr>status = 400,
       body = [(''success'', JsonBool False),
               (''error'', JsonString ''Invalid or missing slug parameter'')]\<rparr>, cold_world) \<and>
   example_GET (JNum 42) cold_world =
     (\<lparr>status = 400,
       body = [(''success'', JsonBool False),
               (''error'', JsonString ''Invalid or missing slug parameter'')]\<rparr>, cold_world) \<and>
   example_GET (JStr (js ''   '')) cold_world =
     (\<lparr>status = 400,
       body = [(''success'', JsonBool False),
               (''error'', JsonString ''Invalid or missing slug parameter'')]\<rparr>, cold_world) \<and>
   example_GET (JStr (js ''Summer_Fest'')) cold_world =
     (\<lparr>status = 400,
       body = [(''success'', JsonBool False),
               (''error'', JsonString
                  ''Invalid slug format. Slug must be lowercase alphanumeric with hyphens.'')]\<rparr>,
      cold_world)"
proof -
  have t1: "trim (js ''   '') = []" by (simp add: trim_def js_def is_ws_def)
  have t2: "trim (js ''Summer_Fest'') \<noteq> [] \<and> \<not> regex_test slugPattern (js ''Summer_Fest'')"
    by (simp add: trim_def js_def is_ws_def slugPattern_def Plus_def lower_alnum_def)
  show ?thesis
    using GET_missing_slug [of JUndefined "Some (js ''mongodb://db'')" "Inr (Mongoose 7)"
        example_findOne example_stringify cold_world "js ''Summer_Fest''"]
      GET_missing_slug [of "JNum 42" "Some (js ''mongodb://db'')" "Inr (Mongoose 7)"
        example_findOne example_stringify cold_world "js ''Summer_Fest''"]
      GET_missing_slug [of "JStr (js ''   '')" "Some (js ''mongodb://db'')" "Inr (Mongoose 7)"
        example_findOne example_stringify cold_world "js ''Summer_Fest''"]
      t1 t2
    by simp
qed

text \<open>
  C10. \<open>GET\<close> is a total function into responses: for every slug value, every state, every
  configuration and every outcome of the connection attempt, of the query and of the
  serialization of the document, throwing ones included, the status is 200, 400, 404 or
  500, and the \<^verbatim>\<open>success\<close> field of the body is the boolean that is true exactly when the
  status is 200.
\<close>

theorem GET_total_envelope:
  "status (fst (GET U net findOne stringify slug w)) \<in> {200, 400, 404, 500} \<and>
   map_of (body (fst (GET U net findOne stringify slug w))) ''success'' =
     Some (JsonBool (status (fst (GET U net findOne stringify slug w)) = 200))"
  by (simp add: GET_def respond_def Let_def
      split: jsval.splits prod.splits sum.splits option.splits)

text \<open>
  The statement above at concrete inputs: an event that is found and serialized, a
  connection attempt that fails, and an event that is found and cannot be serialized.
\<close>

theorem GET_total_envelope_witness:
  "status (fst (example_GET (JStr (js ''summer-fest-2024'')) cold_world)) = 200 \<and>
   map_of (body (fst (example_GET (JStr (js ''summer-fest-2024'')) cold_world))) ''success'' =
     Some (JsonBool True) \<and>
   status (fst (GET (Some (js ''mongodb://db'')) (Inl (Error ''timeout'')) example_findOne
                 example_stringify (JStr (js ''summer-fest-2024'')) cold_world)) = 500 \<and>
   map_of (body (fst (GET (Some (js ''mongodb://db'')) (Inl (Error ''timeout'')) example_findOne
                 example_stringify (JStr (js ''summer-fest-2024'')) cold_world))) ''success'' =
     Some (JsonBool False) \<and>
   status (fst (example_GET (JStr (js ''big-event'')) cold_world)) = 500 \<and>
   map_of (body (fst (example_GET (JStr (js ''big-event'')) cold_world))) ''success'' =
     Some (JsonBool False)"
proof -
  have ok: "status (fst (example_GET (JStr (js ''summer-fest-2024'')) cold_world)) = 200"
    by (simp add: GET_valid [OF example_slug_ok] example_connect example_findOne_def respond_def)
  have c: "fst (connectDB (Some (js ''mongodb://db'')) (Inl (Error ''timeout'')) cold_world) =
      Inl (Error ''timeout'')"
    by (simp add: cold_world_def js_def connectDB_def connectDB_start_def await_def settle_def
        connectDB_resume_def)
  have ko: "status (fst (GET (Some (js ''mongodb://db'')) (Inl (Error ''timeout'')) example_findOne
                 example_stringify (JStr (js ''summer-fest-2024'')) cold_world)) = 500"
    using c by (auto simp: GET_valid [OF example_slug_ok] respond_def split: prod.splits sum.splits)
  have fb: "example_findOne (js ''big-event'') =
      Inr (Some [(''slug'', VString ''big-event''), (''seats'', VBigInt 9007199254740993)])"
    by (simp add: example_findOne_def js_def)
  have big: "status (fst (example_GET (JStr (js ''big-event'')) cold_world)) = 500"
    by (simp add: GET_valid [OF example_slug_big] example_connect fb respond_def)
  show ?thesis
    using GET_total_envelope [of "Some (js ''mongodb://db'')" "Inr (Mongoose 7)" example_findOne
        example_stringify "JStr (js ''summer-fest-2024'')" cold_world]
      GET_total_envelope [of "Some (js ''mongodb://db'')" "Inl (Error ''timeout'')" example_findOne
        example_stringify "JStr (js ''summer-fest-2024'')" cold_world]
      GET_total_envelope [of "Some (js ''mongodb://db'')" "Inr (Mongoose 7)" example_findOne
        example_stringify "JStr (js ''big-event'')" cold_world]
    by (simp add: ok ko big)
qed

end
